theory Spec2Isabelle
  imports Complex_Main "HOL-Library.Word"
begin

section \<open>The curing-chamber controller of UVCuring.ino\<close>

text \<open>
  The sketch keeps its whole state in global variables and runs \<open>loop()\<close> for ever.
  One pass through \<open>loop()\<close> is a tick. The model passes the globals and the levels
  last written to the output pins as a record, and takes what a tick reads from the
  hardware (the button pin, the clock, the two temperature conversions) as a second
  record.
\<close>

subsection \<open>Pins, levels and constants\<close>

datatype level = LOW | HIGH

definition relay_one :: nat where "relay_one = 12"
definition relay_two :: nat where "relay_two = 11"
definition go_button :: nat where "go_button = 8"
definition LED01 :: nat where "LED01 = 3"
definition LED02 :: nat where "LED02 = 4"
definition LED03 :: nat where "LED03 = 5"

text \<open>
  \<open>target_temp\<close> is a \<open>const float\<close>; \<open>target_time\<close> and \<open>debounceDelay\<close> are
  \<open>unsigned long\<close>, 32 bits wide on the AVR boards the sketch is written for, as is the
  value of \<open>millis()\<close>. Sums and differences of clock values wrap around modulo \<open>2^32\<close>
  and comparisons are unsigned, which is what \<open>32 word\<close> gives.
\<close>

definition target_temp :: real where "target_temp = 60"
definition target_time :: "32 word" where "target_time = 7200000"
definition debounceDelay :: "32 word" where "debounceDelay = 75"

subsection \<open>State and inputs\<close>

text \<open>
  The globals of the sketch, with the field \<open>pin\<close> for the level last written to each
  digital output. \<open>box_temp\<close> and \<open>plate_temp\<close> are \<open>float\<close> variables, but they are
  only ever assigned the \<open>int\<close> that \<open>check_Temperature\<close> returns, so they hold whole
  numbers; comparing them with \<open>target_temp\<close> is then exact.
\<close>

record state =
  box_temp :: real
  plate_temp :: real
  heating :: bool
  cycle_run :: bool
  buttonState :: level
  lastButtonState :: level
  lastDebounceTime :: "32 word"
  start_time :: "32 word"
  finish_time :: "32 word"
  pin :: "nat \<Rightarrow> level"

text \<open>
  What one tick reads. \<open>loop()\<close> calls \<open>millis()\<close> at up to seven places, and the clock
  may advance between two calls, so each call site has a reading of its own, named by
  its line in UVCuring.ino. \<open>box_reading\<close> and \<open>plate_reading\<close> are the values returned
  by the two calls of \<open>check_Temperature\<close> (lines 101 and 102), \<open>reading\<close> is
  \<open>digitalRead(go_button)\<close> (line 113).
\<close>

record tick =
  box_reading :: int
  plate_reading :: int
  reading :: level
  millis116 :: "32 word"
  millis118 :: "32 word"
  millis123 :: "32 word"
  millis133 :: "32 word"
  millis148 :: "32 word"
  millis157 :: "32 word"
  millis165 :: "32 word"

definition digitalWrite :: "nat \<Rightarrow> level \<Rightarrow> state \<Rightarrow> state" where
  "digitalWrite p v s = s\<lparr>pin := (pin s)(p := v)\<rparr>"

subsection \<open>setup()\<close>

text \<open>
  Globals without an initialiser start at zero (\<open>LOW\<close> is 0). \<open>setup()\<close> then writes the
  five outputs and clears \<open>heating\<close>.
\<close>

definition setup_state :: state where
  "setup_state =
    (let s = \<lparr>box_temp = 0, plate_temp = 0, heating = False, cycle_run = False,
               buttonState = LOW, lastButtonState = LOW, lastDebounceTime = 0,
               start_time = 0, finish_time = 0, pin = (\<lambda>p. LOW)\<rparr>;
         s = digitalWrite relay_one LOW s;
         s = digitalWrite relay_two LOW s;
         s = digitalWrite LED01 LOW s;
         s = digitalWrite LED02 LOW s;
         s = digitalWrite LED03 HIGH s;
         s = s\<lparr>heating := False\<rparr>
     in s)"

subsection \<open>loop()\<close>

text \<open>Lines 113 to 126: the debounced button and the toggle of \<open>cycle_run\<close>.\<close>

definition check_button :: "tick \<Rightarrow> state \<Rightarrow> state" where
  "check_button x s =
    (let s = (if reading x \<noteq> lastButtonState s
              then s\<lparr>lastDebounceTime := millis116 x\<rparr> else s)
     in if millis118 x - lastDebounceTime s > debounceDelay then
          if reading x \<noteq> buttonState s then
            let s = s\<lparr>buttonState := reading x\<rparr>
            in if buttonState s = LOW
               then s\<lparr>cycle_run := \<not> cycle_run s, finish_time := millis123 x + target_time\<rparr>
               else s
          else s
        else s)"

text \<open>Lines 132 to 137: the time stamps.\<close>

definition stamp_times :: "tick \<Rightarrow> state \<Rightarrow> state" where
  "stamp_times x s =
    (if cycle_run s then s\<lparr>start_time := millis133 x\<rparr>
     else s\<lparr>finish_time := 0, start_time := 0\<rparr>)"

text \<open>Lines 140 to 180: the five branches that run or terminate the curing process.\<close>

definition run_cycle :: "tick \<Rightarrow> state \<Rightarrow> state" where
  "run_cycle x s =
    (if \<not> cycle_run s then
       (let s = s\<lparr>heating := False\<rparr>;
            s = digitalWrite relay_one LOW s;
            s = digitalWrite relay_two LOW s;
            s = digitalWrite LED01 LOW s;
            s = digitalWrite LED02 LOW s;
            s = digitalWrite LED03 HIGH s
        in s)
     else if cycle_run s \<and> finish_time s \<le> millis148 x then
       (let s = s\<lparr>cycle_run := False\<rparr>;
            s = s\<lparr>heating := False\<rparr>;
            s = digitalWrite relay_one LOW s;
            s = digitalWrite relay_two LOW s;
            s = digitalWrite LED01 LOW s;
            s = digitalWrite LED02 LOW s;
            s = digitalWrite LED03 HIGH s
        in s)
     else if cycle_run s \<and> finish_time s > millis157 x \<and> plate_temp s < target_temp then
       (let s = s\<lparr>heating := True\<rparr>;
            s = digitalWrite relay_one HIGH s;
            s = digitalWrite relay_two HIGH s;
            s = digitalWrite LED01 HIGH s;
            s = digitalWrite LED02 HIGH s;
            s = digitalWrite LED03 LOW s
        in s)
     else if cycle_run s \<and> finish_time s > millis165 x \<and> plate_temp s \<ge> target_temp then
       (let s = s\<lparr>heating := False\<rparr>;
            s = digitalWrite relay_one HIGH s;
            s = digitalWrite relay_two LOW s;
            s = digitalWrite LED01 HIGH s;
            s = digitalWrite LED02 LOW s;
            s = digitalWrite LED03 LOW s
        in s)
     else
       (let s = s\<lparr>heating := False\<rparr>;
            s = digitalWrite relay_one LOW s;
            s = digitalWrite relay_two LOW s;
            s = digitalWrite LED01 LOW s;
            s = digitalWrite LED02 LOW s;
            s = digitalWrite LED03 HIGH s
        in s))"

text \<open>
  The state at line 139, after the temperatures are stored, the button is handled and
  the time stamps are set: what the five branches decide on.
\<close>

definition before_cycle :: "tick \<Rightarrow> state \<Rightarrow> state" where
  "before_cycle x s =
    (let s = s\<lparr>box_temp := real_of_int (box_reading x)\<rparr>;
         s = s\<lparr>plate_temp := real_of_int (plate_reading x)\<rparr>;
         s = check_button x s;
         s = stamp_times x s
     in s)"

text \<open>One pass through \<open>loop()\<close>; line 201 saves the raw reading last.\<close>

definition loop :: "tick \<Rightarrow> state \<Rightarrow> state" where
  "loop x s =
    (let s = before_cycle x s;
         s = run_cycle x s
     in s\<lparr>lastButtonState := reading x\<rparr>)"

text \<open>The sketch after \<open>setup()\<close> and the ticks of a trace, oldest first.\<close>

fun run :: "state \<Rightarrow> tick list \<Rightarrow> state" where
  "run s [] = s"
| "run s (x # xs) = run (loop x s) xs"

subsection \<open>What the output levels mean\<close>

text \<open>
  \<open>setup()\<close> documents the relays: ``Open with LOW, closed with HIGH'', and leaves both
  at \<open>LOW\<close> with heater and lights off. It documents the LEDs by ``Red LEDs are off.
  Amber on.'' for \<open>LED01\<close> and \<open>LED02\<close> at \<open>LOW\<close> and \<open>LED03\<close> at \<open>HIGH\<close>.
  \<open>relay_one\<close> switches the heater bed, \<open>relay_two\<close> the UV LEDs.
\<close>

definition heater_on :: "state \<Rightarrow> bool" where
  "heater_on s = (pin s relay_one = HIGH)"

definition uv_on :: "state \<Rightarrow> bool" where
  "uv_on s = (pin s relay_two = HIGH)"

definition led_on :: "state \<Rightarrow> nat \<Rightarrow> bool" where
  "led_on s p = (pin s p = HIGH)"

subsection \<open>Button edges and the clock along a trace\<close>

text \<open>
  The debounced state \<open>buttonState\<close> changes in a tick (an edge); the button of
  UVCuring.ino is wired active-low (\<open>INPUT_PULLUP\<close>, line 121 tests for \<open>LOW\<close>), so an
  edge to \<open>LOW\<close> is a press.
\<close>

definition edge :: "tick \<Rightarrow> state \<Rightarrow> bool" where
  "edge x s = (buttonState (loop x s) \<noteq> buttonState s)"

definition press_edge :: "tick \<Rightarrow> state \<Rightarrow> bool" where
  "press_edge x s = (edge x s \<and> buttonState (loop x s) = LOW)"

text \<open>The value \<open>lastDebounceTime\<close> has after lines 115 to 117.\<close>

definition restart :: "tick \<Rightarrow> state \<Rightarrow> 32 word" where
  "restart x s = (if reading x \<noteq> lastButtonState s then millis116 x else lastDebounceTime s)"

text \<open>
  A trace is chronological when the clock readings the debouncer takes (lines 116 and
  118) never go back, read as unsigned numbers: the clock does not wrap around within
  the trace.
\<close>

definition chrono :: "tick list \<Rightarrow> bool" where
  "chrono tr = sorted (concat (map (\<lambda>z. [unat (millis116 z), unat (millis118 z)]) tr))"

text \<open>
  Two facts about the state after a trace. Either the debounce timer was restarted at
  the first tick of a final stretch of equal readings, or the button has read \<open>LOW\<close>
  since \<open>setup()\<close> and nothing has changed yet.
\<close>

definition settled :: "tick list \<Rightarrow> state \<Rightarrow> bool" where
  "settled tr s \<longleftrightarrow>
     (\<exists>pre suf. tr = pre @ suf \<and> suf \<noteq> [] \<and> (\<forall>y\<in>set suf. reading y = lastButtonState s)
        \<and> lastDebounceTime s = millis116 (hd suf))"

definition untouched :: "tick list \<Rightarrow> state \<Rightarrow> bool" where
  "untouched tr s \<longleftrightarrow>
     (\<forall>y\<in>set tr. reading y = LOW) \<and> buttonState s = LOW \<and> lastButtonState s = LOW"

subsection \<open>Concrete ticks\<close>

text \<open>
  A tick in which every call of \<open>millis()\<close> returns the same value and both thermistors
  convert to the same temperature, and a trace that starts a cycle: the pulled-up
  button reads \<open>HIGH\<close> for two ticks, then \<open>LOW\<close> for two ticks 100 ms apart.
\<close>

definition tick_at :: "32 word \<Rightarrow> level \<Rightarrow> int \<Rightarrow> tick" where
  "tick_at now r t =
    \<lparr>box_reading = t, plate_reading = t, reading = r, millis116 = now, millis118 = now,
     millis123 = now, millis133 = now, millis148 = now, millis157 = now, millis165 = now\<rparr>"

definition press_trace :: "tick list" where
  "press_trace =
    [tick_at 0 HIGH 20, tick_at 100 HIGH 20, tick_at 200 LOW 20, tick_at 300 LOW 20]"

subsection \<open>The five branches in the older variant of the sketch\<close>

text \<open>
  The second file of the repository (src/unnamed/part_000) is an older variant of the
  same sketch. Its \<open>setup()\<close> leaves both relays at \<open>HIGH\<close> (``Relays are open''), and
  its branches (lines 134 to 138) decide on \<open>box_temp\<close> and never write \<open>LED03\<close>. The
  three clock readings are those of lines 135, 136 and 137.
\<close>

definition run_cycle_part000 :: "32 word \<Rightarrow> 32 word \<Rightarrow> 32 word \<Rightarrow> state \<Rightarrow> state" where
  "run_cycle_part000 millis135 millis136 millis137 s =
    (if \<not> cycle_run s then
       (let s = s\<lparr>heating := False\<rparr>;
            s = digitalWrite relay_one HIGH s;
            s = digitalWrite relay_two HIGH s;
            s = digitalWrite LED01 LOW s;
            s = digitalWrite LED02 LOW s
        in s)
     else if cycle_run s \<and> finish_time s \<le> millis135 then
       (let s = s\<lparr>cycle_run := False\<rparr>;
            s = s\<lparr>heating := False\<rparr>;
            s = digitalWrite relay_one HIGH s;
            s = digitalWrite relay_two HIGH s;
            s = digitalWrite LED01 LOW s;
            s = digitalWrite LED02 LOW s
        in s)
     else if cycle_run s \<and> finish_time s > millis136 \<and> box_temp s < target_temp then
       (let s = s\<lparr>heating := True\<rparr>;
            s = digitalWrite relay_one LOW s;
            s = digitalWrite relay_two LOW s;
            s = digitalWrite LED01 HIGH s;
            s = digitalWrite LED02 HIGH s
        in s)
     else if cycle_run s \<and> finish_time s > millis137 \<and> box_temp s \<ge> target_temp then
       (let s = s\<lparr>heating := False\<rparr>;
            s = digitalWrite relay_one HIGH s;
            s = digitalWrite relay_two LOW s;
            s = digitalWrite LED01 HIGH s;
            s = digitalWrite LED02 LOW s
        in s)
     else
       (let s = s\<lparr>heating := False\<rparr>;
            s = digitalWrite relay_one HIGH s;
            s = digitalWrite relay_two HIGH s;
            s = digitalWrite LED01 LOW s;
            s = digitalWrite LED02 LOW s
        in s))"

section \<open>The temperature conversion\<close>

subsection \<open>Float arithmetic\<close>

text \<open>
  \<open>check_Temperature\<close> computes in \<open>float\<close>. A float is modelled as a \<open>real option\<close>:
  \<open>Some r\<close> is the finite value \<open>r\<close>, computed exactly (the rounding of binary
  floating point is left out); \<open>None\<close> stands for an infinity or a NaN, which float
  arithmetic produces where a division by zero or the logarithm of a non-positive
  number occurs, and for everything computed from one. Float arithmetic does not trap,
  so the C function returns in every case; where the model says \<open>None\<close> it makes no
  statement about the number returned.
\<close>

definition fadd :: "real option \<Rightarrow> real option \<Rightarrow> real option" where
  "fadd a b = (case a of None \<Rightarrow> None | Some x \<Rightarrow>
     (case b of None \<Rightarrow> None | Some y \<Rightarrow> Some (x + y)))"

definition fsub :: "real option \<Rightarrow> real option \<Rightarrow> real option" where
  "fsub a b = (case a of None \<Rightarrow> None | Some x \<Rightarrow>
     (case b of None \<Rightarrow> None | Some y \<Rightarrow> Some (x - y)))"

definition fdiv :: "real option \<Rightarrow> real option \<Rightarrow> real option" where
  "fdiv a b = (case a of None \<Rightarrow> None | Some x \<Rightarrow>
     (case b of None \<Rightarrow> None | Some y \<Rightarrow> if y = 0 then None else Some (x / y)))"

definition flog :: "real option \<Rightarrow> real option" where
  "flog a = (case a of None \<Rightarrow> None | Some x \<Rightarrow> if x \<le> 0 then None else Some (ln x))"

text \<open>
  Returning a \<open>float\<close> from a function declared \<open>int\<close> converts it: the fraction is
  dropped (rounding toward zero), and the conversion is defined only for values within
  the range of \<open>int\<close>, 16 bits on AVR.
\<close>

definition trunc :: "real \<Rightarrow> int" where
  "trunc x = (if 0 \<le> x then \<lfloor>x\<rfloor> else \<lceil>x\<rceil>)"

definition float_to_int :: "real option \<Rightarrow> int option" where
  "float_to_int a = (case a of None \<Rightarrow> None | Some x \<Rightarrow>
     if - 32769 < x \<and> x < 32768 then Some (trunc x) else None)"

subsection \<open>check_Temperature in UVCuring.ino\<close>

definition NUMSAMPLES :: nat where "NUMSAMPLES = 5"
definition THERMISTORNOMINAL :: real where "THERMISTORNOMINAL = 100000"
definition TEMPERATURENOMINAL :: real where "TEMPERATURENOMINAL = 25"
definition BCOEFFICIENT :: real where "BCOEFFICIENT = 3950"
definition RESISTANCE :: real where "RESISTANCE = 100000"

text \<open>
  The argument \<open>adc\<close> lists the values that the calls of \<open>analogRead(tpin)\<close> return, in
  order; the first loop (lines 236 to 239) stores \<open>NUMSAMPLES\<close> of them. The result
  records the locals \<open>res\<close> and \<open>steinhart\<close> as they are at the \<open>return\<close>, and the
  \<open>int\<close> returned.
\<close>

record conversion =
  res :: "real option"
  steinhart :: "real option"
  ret :: "int option"

definition check_Temperature :: "int list \<Rightarrow> conversion" where
  "check_Temperature adc =
    (let samples = take NUMSAMPLES adc;
         average = Some 0;
         average = foldl (\<lambda>a v. fadd a (Some (real_of_int v))) average samples;
         average = fdiv average (Some (real NUMSAMPLES));
         res = fdiv (Some RESISTANCE) (fsub (fdiv (Some 1023) average) (Some 1));
         steinhart = fdiv res (Some THERMISTORNOMINAL);
         steinhart = flog steinhart;
         steinhart = fdiv steinhart (Some BCOEFFICIENT);
         steinhart = fadd steinhart (fdiv (Some 1) (fadd (Some TEMPERATURENOMINAL) (Some 273.15)));
         steinhart = fdiv (Some 1) steinhart;
         steinhart = fsub steinhart (Some 273.15)
     in \<lparr>res = res, steinhart = steinhart, ret = float_to_int steinhart\<rparr>)"

text \<open>The mean of the samples, as the claims about the conversion speak of it.\<close>

definition adc_mean :: "int list \<Rightarrow> real" where
  "adc_mean adc = real_of_int (sum_list adc) / real NUMSAMPLES"

subsection \<open>check_Temperature in the older variant\<close>

text \<open>
  In src/unnamed/part_000 the function takes the divider resistance as a second
  argument \<open>r\<close>, reuses \<open>average\<close> for the resistance, and has
  \<open>THERMISTORNOMINAL\<close> 10000. Line 215 reads
  \<open>steinhart =+ 1.0 / TEMPERATURENOMINAL + 273.15\<close>: an assignment of
  \<open>+1.0 / TEMPERATURENOMINAL + 273.15\<close>, not an addition to \<open>steinhart\<close>.
\<close>

definition THERMISTORNOMINAL_part000 :: real where "THERMISTORNOMINAL_part000 = 10000"

definition check_Temperature_part000 :: "int \<Rightarrow> int list \<Rightarrow> int option" where
  "check_Temperature_part000 r adc =
    (let res = r;
         samples = take NUMSAMPLES adc;
         average = Some 0;
         average = foldl (\<lambda>a v. fadd a (Some (real_of_int v))) average samples;
         average = fdiv average (Some (real NUMSAMPLES));
         average = fsub (fdiv (Some 1023) average) (Some 1);
         average = fdiv (Some (real_of_int res)) average;
         steinhart = fdiv average (Some THERMISTORNOMINAL_part000);
         steinhart = flog steinhart;
         steinhart = fdiv steinhart (Some BCOEFFICIENT);
         steinhart = fadd (fdiv (Some 1) (Some TEMPERATURENOMINAL)) (Some 273.15);
         steinhart = fdiv (Some 1) steinhart;
         steinhart = fsub steinhart (Some 273.15)
     in float_to_int steinhart)"

subsection \<open>Float arithmetic with infinities and NaN\<close>

text \<open>
  At a mean of exactly 0 or 1023 the conversion divides by zero, and what it returns is
  decided by the special values of float arithmetic. This second model follows them: a
  float is a finite value, computed exactly, or one of \<open>+inf\<close>, \<open>-inf\<close> and NaN, with
  the rules of IEEE 754 for them. A non-zero number divided by zero is an infinity,
  \<open>0 / 0\<close> and \<open>inf / inf\<close> are NaN, a finite number divided by an infinity is zero,
  \<open>log\<close> of zero is \<open>-inf\<close>, of a negative number NaN and of \<open>+inf\<close> is \<open>+inf\<close>, and NaN
  propagates.

  The model has a single zero. IEEE arithmetic has two, and the sign of a zero matters
  only where it is a divisor; a zero divisor is taken as \<open>+0\<close>, which is what
  \<open>check_Temperature\<close> divides by: the mean of a zero sum (line 246) is \<open>+0\<close>, and
  so is the difference \<open>1 - 1\<close> of line 249.
\<close>

datatype xfloat = Fin real | PInf | NInf | NaN

fun xadd :: "xfloat \<Rightarrow> xfloat \<Rightarrow> xfloat" where
  "xadd NaN b = NaN"
| "xadd a NaN = NaN"
| "xadd (Fin a) (Fin b) = Fin (a + b)"
| "xadd PInf NInf = NaN"
| "xadd NInf PInf = NaN"
| "xadd PInf b = PInf"
| "xadd a PInf = PInf"
| "xadd NInf b = NInf"
| "xadd a NInf = NInf"

fun xsub :: "xfloat \<Rightarrow> xfloat \<Rightarrow> xfloat" where
  "xsub NaN b = NaN"
| "xsub a NaN = NaN"
| "xsub (Fin a) (Fin b) = Fin (a - b)"
| "xsub PInf PInf = NaN"
| "xsub NInf NInf = NaN"
| "xsub PInf b = PInf"
| "xsub a NInf = PInf"
| "xsub NInf b = NInf"
| "xsub a PInf = NInf"

fun xdiv :: "xfloat \<Rightarrow> xfloat \<Rightarrow> xfloat" where
  "xdiv NaN b = NaN"
| "xdiv a NaN = NaN"
| "xdiv (Fin a) (Fin b) =
     (if b \<noteq> 0 then Fin (a / b) else if a = 0 then NaN else if 0 < a then PInf else NInf)"
| "xdiv (Fin a) PInf = Fin 0"
| "xdiv (Fin a) NInf = Fin 0"
| "xdiv PInf (Fin b) = (if 0 \<le> b then PInf else NInf)"
| "xdiv NInf (Fin b) = (if 0 \<le> b then NInf else PInf)"
| "xdiv a b = NaN"

fun xlog :: "xfloat \<Rightarrow> xfloat" where
  "xlog (Fin a) = (if 0 < a then Fin (ln a) else if a = 0 then NInf else NaN)"
| "xlog PInf = PInf"
| "xlog NInf = NaN"
| "xlog NaN = NaN"

text \<open>
  The conversion to \<open>int\<close> at the \<open>return\<close>; C leaves it undefined for an infinity, a
  NaN and a value out of range.
\<close>

fun xfloat_to_int :: "xfloat \<Rightarrow> int option" where
  "xfloat_to_int (Fin x) = (if - 32769 < x \<and> x < 32768 then Some (trunc x) else None)"
| "xfloat_to_int a = None"

text \<open>\<open>check_Temperature\<close> of UVCuring.ino once more (lines 220 to 269), on these floats.\<close>

record xconversion =
  xres :: xfloat
  xsteinhart :: xfloat
  xret :: "int option"

definition check_Temperature_ieee :: "int list \<Rightarrow> xconversion" where
  "check_Temperature_ieee adc =
    (let samples = take NUMSAMPLES adc;
         average = Fin 0;
         average = foldl (\<lambda>a v. xadd a (Fin (real_of_int v))) average samples;
         average = xdiv average (Fin (real NUMSAMPLES));
         res = xdiv (Fin RESISTANCE) (xsub (xdiv (Fin 1023) average) (Fin 1));
         steinhart = xdiv res (Fin THERMISTORNOMINAL);
         steinhart = xlog steinhart;
         steinhart = xdiv steinhart (Fin BCOEFFICIENT);
         steinhart = xadd steinhart (xdiv (Fin 1) (xadd (Fin TEMPERATURENOMINAL) (Fin 273.15)));
         steinhart = xdiv (Fin 1) steinhart;
         steinhart = xsub steinhart (Fin 273.15)
     in \<lparr>xres = res, xsteinhart = steinhart, xret = xfloat_to_int steinhart\<rparr>)"

text \<open>
  The two models are related: where the first computes a finite real, the second has
  that same value.
\<close>

definition agrees :: "real option \<Rightarrow> xfloat \<Rightarrow> bool" where
  "agrees a x = (case a of None \<Rightarrow> True | Some r \<Rightarrow> x = Fin r)"

section \<open>Properties of the controller\<close>

lemma run_snoc: "run s (xs @ [x]) = loop x (run s xs)"
  by (induction xs arbitrary: s) simp_all


subsection \<open>Frame lemmas\<close>

lemma pin_digitalWrite: "pin (digitalWrite p v s) q = (if q = p then v else pin s q)"
  by (simp add: digitalWrite_def)

lemma digitalWrite_fields:
  "heating (digitalWrite p v s) = heating s"
  "cycle_run (digitalWrite p v s) = cycle_run s"
  "buttonState (digitalWrite p v s) = buttonState s"
  "lastButtonState (digitalWrite p v s) = lastButtonState s"
  "lastDebounceTime (digitalWrite p v s) = lastDebounceTime s"
  "start_time (digitalWrite p v s) = start_time s"
  "finish_time (digitalWrite p v s) = finish_time s"
  "plate_temp (digitalWrite p v s) = plate_temp s"
  "box_temp (digitalWrite p v s) = box_temp s"
  by (simp_all add: digitalWrite_def)

lemmas pin_numbers = relay_one_def relay_two_def LED01_def LED02_def LED03_def

lemmas eval_defs = loop_def before_cycle_def check_button_def stamp_times_def run_cycle_def
  digitalWrite_def tick_at_def setup_state_def Let_def target_time_def debounceDelay_def
  target_temp_def pin_numbers

lemma run_cycle_frame:
  "buttonState (run_cycle x s) = buttonState s"
  "lastButtonState (run_cycle x s) = lastButtonState s"
  "lastDebounceTime (run_cycle x s) = lastDebounceTime s"
  "start_time (run_cycle x s) = start_time s"
  "finish_time (run_cycle x s) = finish_time s"
  by (simp_all add: run_cycle_def Let_def digitalWrite_fields)

lemma stamp_times_frame:
  "buttonState (stamp_times x s) = buttonState s"
  "lastButtonState (stamp_times x s) = lastButtonState s"
  "lastDebounceTime (stamp_times x s) = lastDebounceTime s"
  "cycle_run (stamp_times x s) = cycle_run s"
  "plate_temp (stamp_times x s) = plate_temp s"
  by (simp_all add: stamp_times_def)

lemma plate_temp_before_cycle: "plate_temp (before_cycle x s) = real_of_int (plate_reading x)"
  by (simp add: before_cycle_def check_button_def stamp_times_def Let_def)

subsection \<open>The five branches, one by one\<close>

lemma run_cycle_idle:
  assumes "\<not> cycle_run s"
  shows "run_cycle x s =
    digitalWrite LED03 HIGH (digitalWrite LED02 LOW (digitalWrite LED01 LOW
      (digitalWrite relay_two LOW (digitalWrite relay_one LOW (s\<lparr>heating := False\<rparr>)))))"
  using assms by (simp add: run_cycle_def Let_def)

lemma run_cycle_timeout:
  assumes "cycle_run s" "finish_time s \<le> millis148 x"
  shows "run_cycle x s =
    digitalWrite LED03 HIGH (digitalWrite LED02 LOW (digitalWrite LED01 LOW
      (digitalWrite relay_two LOW (digitalWrite relay_one LOW
        (s\<lparr>cycle_run := False, heating := False\<rparr>)))))"
  using assms by (simp add: run_cycle_def Let_def)

lemma run_cycle_heating:
  assumes "cycle_run s" "millis148 x < finish_time s" "millis157 x < finish_time s"
      and "plate_temp s < target_temp"
  shows "run_cycle x s =
    digitalWrite LED03 LOW (digitalWrite LED02 HIGH (digitalWrite LED01 HIGH
      (digitalWrite relay_two HIGH (digitalWrite relay_one HIGH (s\<lparr>heating := True\<rparr>)))))"
  using assms by (simp add: run_cycle_def Let_def not_le)

lemma run_cycle_at_temperature:
  assumes "cycle_run s" "millis148 x < finish_time s" "millis165 x < finish_time s"
      and "target_temp \<le> plate_temp s"
  shows "run_cycle x s =
    digitalWrite LED03 LOW (digitalWrite LED02 LOW (digitalWrite LED01 HIGH
      (digitalWrite relay_two LOW (digitalWrite relay_one HIGH (s\<lparr>heating := False\<rparr>)))))"
  using assms by (simp add: run_cycle_def Let_def not_le not_less)


lemma run_cycle_heating_running: "heating (run_cycle x s) \<Longrightarrow> cycle_run (run_cycle x s)"
  by (simp add: run_cycle_def Let_def digitalWrite_fields split: if_splits)

lemma loop_heating_running: "heating (loop x s) \<Longrightarrow> cycle_run (loop x s)"
  by (simp add: loop_def Let_def run_cycle_heating_running)

lemma run_heating_running:
  "heating (run setup_state tr) \<Longrightarrow> cycle_run (run setup_state tr)"
proof (induction tr rule: rev_induct)
  case Nil
  then show ?case by (simp add: setup_state_def Let_def digitalWrite_fields)
next
  case (snoc x xs)
  then show ?case by (simp add: run_snoc loop_heating_running)
qed

text \<open>
  The older variant, where both relays idle at \<open>HIGH\<close>: at temperature it puts the
  heater relay at its idle level and the UV relay at its heating level.
\<close>

lemma part000_relays:
  "\<not> cycle_run s \<Longrightarrow>
     pin (run_cycle_part000 a b c s) relay_one = HIGH
     \<and> pin (run_cycle_part000 a b c s) relay_two = HIGH"
  "cycle_run s \<Longrightarrow> a < finish_time s \<Longrightarrow> b < finish_time s \<Longrightarrow> box_temp s < target_temp \<Longrightarrow>
     pin (run_cycle_part000 a b c s) relay_one = LOW
     \<and> pin (run_cycle_part000 a b c s) relay_two = LOW"
  "cycle_run s \<Longrightarrow> a < finish_time s \<Longrightarrow> c < finish_time s \<Longrightarrow> target_temp \<le> box_temp s \<Longrightarrow>
     pin (run_cycle_part000 a b c s) relay_one = HIGH
     \<and> pin (run_cycle_part000 a b c s) relay_two = LOW"
  by (simp_all add: run_cycle_part000_def Let_def pin_digitalWrite pin_numbers not_le not_less)


subsection \<open>The states of the cycle\<close>

text \<open>
  Claim C1, evaluated on the code. The tick after \<open>press_trace\<close> has the cycle running,
  \<open>finish_time\<close> (7200300) ahead of the clock (400) and a plate temperature of 65, at or
  above \<open>target_temp\<close>. The fourth branch (lines 165 to 172) clears \<open>heating\<close> and
  lights one red LED only, with the amber LED off, but it writes \<open>HIGH\<close> to
  \<open>relay_one\<close>, the level of the heating branch that closes the heater relay, and \<open>LOW\<close>
  to \<open>relay_two\<close>, the level of the idle branch that opens the UV relay: the heater stays
  on and the UV light goes off, the opposite of what the claim says.
\<close>

theorem at_temperature_relays:
  "cycle_run (before_cycle (tick_at 400 LOW 65) (run setup_state press_trace))
   \<and> millis148 (tick_at 400 LOW 65)
       < finish_time (before_cycle (tick_at 400 LOW 65) (run setup_state press_trace))
   \<and> millis165 (tick_at 400 LOW 65)
       < finish_time (before_cycle (tick_at 400 LOW 65) (run setup_state press_trace))
   \<and> target_temp \<le> plate_temp (before_cycle (tick_at 400 LOW 65) (run setup_state press_trace))
   \<and> \<not> heating (loop (tick_at 400 LOW 65) (run setup_state press_trace))
   \<and> pin (loop (tick_at 400 LOW 65) (run setup_state press_trace)) relay_one = HIGH
   \<and> pin (loop (tick_at 400 LOW 65) (run setup_state press_trace)) relay_two = LOW
   \<and> heater_on (loop (tick_at 400 LOW 65) (run setup_state press_trace))
   \<and> \<not> uv_on (loop (tick_at 400 LOW 65) (run setup_state press_trace))
   \<and> led_on (loop (tick_at 400 LOW 65) (run setup_state press_trace)) LED01
   \<and> \<not> led_on (loop (tick_at 400 LOW 65) (run setup_state press_trace)) LED02
   \<and> \<not> led_on (loop (tick_at 400 LOW 65) (run setup_state press_trace)) LED03"
proof -
  let ?x = "tick_at 400 LOW 65" and ?s = "run setup_state press_trace"
  have a: "cycle_run (before_cycle ?x ?s)"
    by (simp add: press_trace_def eval_defs)
  have b: "millis148 ?x < finish_time (before_cycle ?x ?s)"
    by (simp add: press_trace_def eval_defs)
  have c: "millis165 ?x < finish_time (before_cycle ?x ?s)"
    by (simp add: press_trace_def eval_defs)
  have d: "target_temp \<le> plate_temp (before_cycle ?x ?s)"
    by (simp add: plate_temp_before_cycle tick_at_def target_temp_def)
  have "loop ?x ?s = (run_cycle ?x (before_cycle ?x ?s))\<lparr>lastButtonState := reading ?x\<rparr>"
    by (simp add: loop_def Let_def)
  then show ?thesis using a b c d
    by (simp add: run_cycle_at_temperature [OF a b c d] pin_digitalWrite digitalWrite_fields
      pin_numbers heater_on_def uv_on_def led_on_def)
qed

text \<open>
  Claim C2. In a tick in which the cycle is running at line 139 and \<open>finish_time\<close> is
  not after the clock read at line 148, the second branch ends the cycle in that tick:
  \<open>cycle_run\<close> and \<open>heating\<close> are cleared and the outputs are the idle ones, both relays
  open (heater and UV off), both red LEDs off, the amber LED on.
\<close>

theorem timeout_goes_idle:
  assumes "cycle_run (before_cycle x s)"
      and "finish_time (before_cycle x s) \<le> millis148 x"
  shows "\<not> cycle_run (loop x s) \<and> \<not> heating (loop x s)
       \<and> pin (loop x s) relay_one = LOW \<and> pin (loop x s) relay_two = LOW
       \<and> pin (loop x s) LED01 = LOW \<and> pin (loop x s) LED02 = LOW
       \<and> pin (loop x s) LED03 = HIGH
       \<and> \<not> heater_on (loop x s) \<and> \<not> uv_on (loop x s)
       \<and> \<not> led_on (loop x s) LED01 \<and> \<not> led_on (loop x s) LED02
       \<and> led_on (loop x s) LED03"
  using assms
  by (simp add: loop_def Let_def run_cycle_timeout pin_digitalWrite digitalWrite_fields
      pin_numbers heater_on_def uv_on_def led_on_def)

text \<open>The cycle started by \<open>press_trace\<close> at 300 ms times out in a tick at 7200400 ms.\<close>

theorem timeout_goes_idle_witness:
  "cycle_run (before_cycle (tick_at 7200400 LOW 20) (run setup_state press_trace))
   \<and> finish_time (before_cycle (tick_at 7200400 LOW 20) (run setup_state press_trace))
       \<le> millis148 (tick_at 7200400 LOW 20)
   \<and> \<not> cycle_run (loop (tick_at 7200400 LOW 20) (run setup_state press_trace))
   \<and> \<not> heater_on (loop (tick_at 7200400 LOW 20) (run setup_state press_trace))
   \<and> \<not> uv_on (loop (tick_at 7200400 LOW 20) (run setup_state press_trace))
   \<and> led_on (loop (tick_at 7200400 LOW 20) (run setup_state press_trace)) LED03"
proof -
  let ?x = "tick_at 7200400 LOW 20" and ?s = "run setup_state press_trace"
  have a: "cycle_run (before_cycle ?x ?s)"
    by (simp add: press_trace_def eval_defs)
  have b: "finish_time (before_cycle ?x ?s) \<le> millis148 ?x"
    by (simp add: press_trace_def eval_defs)
  show ?thesis using a b timeout_goes_idle [OF a b] by simp
qed

text \<open>
  Claim C3. In a tick in which the cycle is running at line 139, \<open>finish_time\<close> is after
  the clock read at lines 148 and 157, and the plate temperature is below
  \<open>target_temp\<close>, the third branch is taken: \<open>heating\<close> is set, both relays are closed
  (heater and UV on), both red LEDs are on and the amber LED is off.
\<close>

theorem heating_state:
  assumes "cycle_run (before_cycle x s)"
      and "millis148 x < finish_time (before_cycle x s)"
      and "millis157 x < finish_time (before_cycle x s)"
      and "plate_temp (before_cycle x s) < target_temp"
  shows "heating (loop x s) \<and> cycle_run (loop x s)
       \<and> pin (loop x s) relay_one = HIGH \<and> pin (loop x s) relay_two = HIGH
       \<and> pin (loop x s) LED01 = HIGH \<and> pin (loop x s) LED02 = HIGH
       \<and> pin (loop x s) LED03 = LOW
       \<and> heater_on (loop x s) \<and> uv_on (loop x s)
       \<and> led_on (loop x s) LED01 \<and> led_on (loop x s) LED02
       \<and> \<not> led_on (loop x s) LED03"
  using assms
  by (simp add: loop_def Let_def run_cycle_heating pin_digitalWrite digitalWrite_fields
      pin_numbers heater_on_def uv_on_def led_on_def)

text \<open>A tick at 400 ms with the plate at 40 degrees, in the cycle started by \<open>press_trace\<close>.\<close>

theorem heating_state_witness:
  "cycle_run (before_cycle (tick_at 400 LOW 40) (run setup_state press_trace))
   \<and> millis148 (tick_at 400 LOW 40)
       < finish_time (before_cycle (tick_at 400 LOW 40) (run setup_state press_trace))
   \<and> millis157 (tick_at 400 LOW 40)
       < finish_time (before_cycle (tick_at 400 LOW 40) (run setup_state press_trace))
   \<and> plate_temp (before_cycle (tick_at 400 LOW 40) (run setup_state press_trace)) < target_temp
   \<and> heating (loop (tick_at 400 LOW 40) (run setup_state press_trace))
   \<and> heater_on (loop (tick_at 400 LOW 40) (run setup_state press_trace))
   \<and> uv_on (loop (tick_at 400 LOW 40) (run setup_state press_trace))"
proof -
  let ?x = "tick_at 400 LOW 40" and ?s = "run setup_state press_trace"
  have a: "cycle_run (before_cycle ?x ?s)"
    by (simp add: press_trace_def eval_defs)
  have b: "millis148 ?x < finish_time (before_cycle ?x ?s)"
    by (simp add: press_trace_def eval_defs)
  have c: "millis157 ?x < finish_time (before_cycle ?x ?s)"
    by (simp add: press_trace_def eval_defs)
  have d: "plate_temp (before_cycle ?x ?s) < target_temp"
    by (simp add: plate_temp_before_cycle tick_at_def target_temp_def)
  show ?thesis using a b c d heating_state [OF a b c d] by simp
qed

text \<open>
  Claim C6. \<open>setup()\<close> leaves \<open>heating\<close> and \<open>cycle_run\<close> false; at the end of a tick, from
  any state, \<open>heating\<close> implies \<open>cycle_run\<close>; hence the same holds in every state
  reachable from \<open>setup()\<close>.
\<close>

theorem heating_implies_running:
  "\<not> heating setup_state \<and> \<not> cycle_run setup_state
   \<and> (heating (loop x s) \<longrightarrow> cycle_run (loop x s))
   \<and> (heating (run setup_state tr) \<longrightarrow> cycle_run (run setup_state tr))"
  using loop_heating_running [of x s] run_heating_running [of tr]
  by (auto simp add: setup_state_def Let_def digitalWrite_fields)

text \<open>After \<open>press_trace\<close>, and after one more tick, the heater flag is set and the cycle runs.\<close>

theorem heating_implies_running_witness:
  "heating (loop (tick_at 400 LOW 40) (run setup_state press_trace))
   \<and> cycle_run (loop (tick_at 400 LOW 40) (run setup_state press_trace))
   \<and> heating (run setup_state press_trace) \<and> cycle_run (run setup_state press_trace)"
proof -
  have a: "heating (loop (tick_at 400 LOW 40) (run setup_state press_trace))"
    by (simp add: press_trace_def eval_defs)
  have b: "heating (run setup_state press_trace)"
    by (simp add: press_trace_def eval_defs)
  show ?thesis
    using a b
      heating_implies_running [of "tick_at 400 LOW 40" "run setup_state press_trace" press_trace]
    by simp
qed


subsection \<open>The debouncer\<close>

text \<open>The button handling of lines 113 to 126, by cases: the state commits or not.\<close>

lemma check_button_commit:
  assumes "debounceDelay < millis118 x - restart x s" and "reading x \<noteq> buttonState s"
  shows "check_button x s =
     (if reading x = LOW
      then s\<lparr>lastDebounceTime := restart x s, buttonState := reading x,
             cycle_run := \<not> cycle_run s, finish_time := millis123 x + target_time\<rparr>
      else s\<lparr>lastDebounceTime := restart x s, buttonState := reading x\<rparr>)"
  using assms unfolding check_button_def Let_def restart_def
  by (cases "reading x = lastButtonState s") auto

lemma check_button_keep:
  assumes "\<not> (debounceDelay < millis118 x - restart x s \<and> reading x \<noteq> buttonState s)"
  shows "check_button x s = s\<lparr>lastDebounceTime := restart x s\<rparr>"
  using assms unfolding check_button_def Let_def restart_def
  by (cases "reading x = lastButtonState s") auto

lemma restart_temps: "restart x (s\<lparr>box_temp := a, plate_temp := b\<rparr>) = restart x s"
  by (simp add: restart_def)

lemma check_button_temps:
  "check_button x (s\<lparr>box_temp := a, plate_temp := b\<rparr>) =
     (check_button x s)\<lparr>box_temp := a, plate_temp := b\<rparr>"
proof (cases "debounceDelay < millis118 x - restart x s \<and> reading x \<noteq> buttonState s")
  case True
  then have "debounceDelay < millis118 x - restart x (s\<lparr>box_temp := a, plate_temp := b\<rparr>)"
      "reading x \<noteq> buttonState (s\<lparr>box_temp := a, plate_temp := b\<rparr>)"
    by (simp_all add: restart_temps)
  then show ?thesis using True
    by (simp add: check_button_commit restart_temps)
next
  case False
  then have "\<not> (debounceDelay < millis118 x - restart x (s\<lparr>box_temp := a, plate_temp := b\<rparr>)
      \<and> reading x \<noteq> buttonState (s\<lparr>box_temp := a, plate_temp := b\<rparr>))"
    by (simp add: restart_temps)
  then show ?thesis using False
    by (simp add: check_button_keep restart_temps)
qed

lemma before_cycle_eq:
  "before_cycle x s =
     stamp_times x ((check_button x s)\<lparr>box_temp := real_of_int (box_reading x),
       plate_temp := real_of_int (plate_reading x)\<rparr>)"
  by (simp add: before_cycle_def Let_def check_button_temps)

lemma loop_lastButtonState: "lastButtonState (loop x s) = reading x"
  by (simp add: loop_def Let_def)

lemma loop_lastDebounceTime: "lastDebounceTime (loop x s) = restart x s"
proof (cases "debounceDelay < millis118 x - restart x s \<and> reading x \<noteq> buttonState s")
  case True
  then show ?thesis
    by (simp add: loop_def before_cycle_eq Let_def run_cycle_frame stamp_times_frame
        check_button_commit)
next
  case False
  then show ?thesis
    by (simp add: loop_def before_cycle_eq Let_def run_cycle_frame stamp_times_frame
        check_button_keep)
qed

lemma loop_buttonState:
  "buttonState (loop x s) =
     (if debounceDelay < millis118 x - restart x s \<and> reading x \<noteq> buttonState s
      then reading x else buttonState s)"
proof (cases "debounceDelay < millis118 x - restart x s \<and> reading x \<noteq> buttonState s")
  case True
  then show ?thesis
    by (simp add: loop_def before_cycle_eq Let_def run_cycle_frame stamp_times_frame
        check_button_commit)
next
  case False
  then show ?thesis
    by (simp add: loop_def before_cycle_eq Let_def run_cycle_frame stamp_times_frame
        check_button_keep)
qed

lemma edge_iff:
  "edge x s \<longleftrightarrow> debounceDelay < millis118 x - restart x s \<and> reading x \<noteq> buttonState s"
  by (auto simp add: edge_def loop_buttonState)

lemma edge_buttonState: "edge x s \<Longrightarrow> buttonState (loop x s) = reading x"
  by (simp add: edge_iff loop_buttonState)

lemma no_edge_buttonState: "\<not> edge x s \<Longrightarrow> buttonState (loop x s) = buttonState s"
  by (simp add: edge_def)

lemma before_cycle_cycle_run:
  "cycle_run (before_cycle x s) = (if press_edge x s then \<not> cycle_run s else cycle_run s)"
proof (cases "edge x s")
  case True
  then have c: "debounceDelay < millis118 x - restart x s" "reading x \<noteq> buttonState s"
    by (simp_all add: edge_iff)
  show ?thesis
    using True edge_buttonState [OF True]
    by (simp add: press_edge_def before_cycle_eq stamp_times_frame check_button_commit [OF c])
next
  case False
  then have "\<not> (debounceDelay < millis118 x - restart x s \<and> reading x \<noteq> buttonState s)"
    by (simp add: edge_iff)
  then show ?thesis
    using False
    by (simp add: press_edge_def before_cycle_eq stamp_times_frame check_button_keep)
qed


text \<open>Where the debounce timer was last restarted, along a trace from \<open>setup()\<close>.\<close>

lemma settled_step:
  assumes "settled tr s \<or> untouched tr s"
  shows "(settled (tr @ [x]) (loop x s) \<or> untouched (tr @ [x]) (loop x s))
       \<and> (edge x s \<longrightarrow> settled (tr @ [x]) (loop x s))"
proof (cases "reading x = lastButtonState s")
  case False
  have "tr @ [x] = tr @ [x] \<and> [x] \<noteq> [] \<and> (\<forall>y\<in>set [x]. reading y = lastButtonState (loop x s))
      \<and> lastDebounceTime (loop x s) = millis116 (hd [x])"
    using False by (simp add: loop_lastButtonState loop_lastDebounceTime restart_def)
  then have "settled (tr @ [x]) (loop x s)"
    unfolding settled_def by blast
  then show ?thesis by simp
next
  case True
  from assms show ?thesis
  proof
    assume "settled tr s"
    then obtain pre suf where ps: "tr = pre @ suf" "suf \<noteq> []"
        "\<forall>y\<in>set suf. reading y = lastButtonState s" "lastDebounceTime s = millis116 (hd suf)"
      unfolding settled_def by blast
    have "tr @ [x] = pre @ (suf @ [x]) \<and> suf @ [x] \<noteq> []
        \<and> (\<forall>y\<in>set (suf @ [x]). reading y = lastButtonState (loop x s))
        \<and> lastDebounceTime (loop x s) = millis116 (hd (suf @ [x]))"
      using ps True by (simp add: loop_lastButtonState loop_lastDebounceTime restart_def)
    then have "settled (tr @ [x]) (loop x s)"
      unfolding settled_def by blast
    then show ?thesis by simp
  next
    assume u: "untouched tr s"
    then have same: "reading x = buttonState s"
      using True by (simp add: untouched_def)
    then have ne: "\<not> edge x s" by (simp add: edge_iff)
    have "untouched (tr @ [x]) (loop x s)"
      using u True same no_edge_buttonState [OF ne]
      by (simp add: untouched_def loop_lastButtonState)
    with ne show ?thesis by simp
  qed
qed

lemma settled_run: "settled tr (run setup_state tr) \<or> untouched tr (run setup_state tr)"
proof (induction tr rule: rev_induct)
  case Nil
  show ?case by (simp add: untouched_def setup_state_def Let_def digitalWrite_fields)
next
  case (snoc x xs)
  then show ?case using settled_step [of xs "run setup_state xs" x] by (simp add: run_snoc)
qed

lemma edge_after_stable:
  assumes "edge x (run setup_state tr)"
  shows "\<exists>pre suf. tr @ [x] = pre @ suf \<and> suf \<noteq> [] \<and> (\<forall>y\<in>set suf. reading y = reading x)
           \<and> debounceDelay < millis118 x - millis116 (hd suf)"
proof -
  let ?s = "run setup_state tr"
  have "settled (tr @ [x]) (loop x ?s)"
    using settled_step [of tr ?s x] settled_run [of tr] assms by simp
  then obtain pre suf where ps: "tr @ [x] = pre @ suf" "suf \<noteq> []"
      "\<forall>y\<in>set suf. reading y = lastButtonState (loop x ?s)"
      "lastDebounceTime (loop x ?s) = millis116 (hd suf)"
    unfolding settled_def by blast
  moreover have "debounceDelay < millis118 x - lastDebounceTime (loop x ?s)"
    using assms by (simp add: edge_iff loop_lastDebounceTime)
  ultimately have "tr @ [x] = pre @ suf \<and> suf \<noteq> [] \<and> (\<forall>y\<in>set suf. reading y = reading x)
           \<and> debounceDelay < millis118 x - millis116 (hd suf)"
    by (simp add: loop_lastButtonState)
  then show ?thesis by blast
qed

text \<open>
  After a change of the debounced state, the raw reading agrees with it; when they
  differ again, the timer has been restarted at a later tick.
\<close>

lemma restart_after_edge:
  assumes "edge x (run setup_state tr)"
  shows "lastButtonState (run setup_state (tr @ x # tr')) \<noteq> buttonState (run setup_state (tr @ x # tr'))
     \<Longrightarrow> \<exists>w\<in>set tr'. lastDebounceTime (run setup_state (tr @ x # tr')) = millis116 w"
proof (induction tr' rule: rev_induct)
  case Nil
  have "run setup_state (tr @ [x]) = loop x (run setup_state tr)" by (rule run_snoc)
  with Nil assms show ?case
    by (simp add: edge_buttonState loop_lastButtonState)
next
  case (snoc z zs)
  let ?s = "run setup_state (tr @ x # zs)"
  have r: "run setup_state (tr @ x # zs @ [z]) = loop z ?s"
    using run_snoc [of setup_state "tr @ x # zs" z] by simp
  from snoc.prems have ne: "reading z \<noteq> buttonState (loop z ?s)"
    by (simp add: r loop_lastButtonState)
  then have nedge: "\<not> edge z ?s" using edge_buttonState [of z ?s] by auto
  then have bs: "buttonState (loop z ?s) = buttonState ?s" by (rule no_edge_buttonState)
  show ?case
  proof (cases "reading z = lastButtonState ?s")
    case False
    then show ?thesis by (simp add: r loop_lastDebounceTime restart_def)
  next
    case True
    then have "lastButtonState ?s \<noteq> buttonState ?s" using ne bs by simp
    then obtain w where "w \<in> set zs" "lastDebounceTime ?s = millis116 w"
      using snoc.IH by blast
    then show ?thesis using True by (auto simp add: r loop_lastDebounceTime restart_def)
  qed
qed

lemma edge_restarted:
  assumes "edge x (run setup_state tr)" and "edge y (run setup_state (tr @ x # tr'))"
  shows "\<exists>w\<in>set (tr' @ [y]). debounceDelay < millis118 y - millis116 w"
proof -
  let ?s = "run setup_state (tr @ x # tr')"
  from assms(2) have e: "debounceDelay < millis118 y - restart y ?s"
      and ne: "reading y \<noteq> buttonState ?s"
    by (simp_all add: edge_iff)
  show ?thesis
  proof (cases "reading y = lastButtonState ?s")
    case False
    then show ?thesis using e by (simp add: restart_def)
  next
    case True
    then have "lastButtonState ?s \<noteq> buttonState ?s" using ne by simp
    then obtain w where "w \<in> set tr'" "lastDebounceTime ?s = millis116 w"
      using restart_after_edge [OF assms(1)] by blast
    then show ?thesis using e True by (auto simp add: restart_def)
  qed
qed

lemma chrono_later:
  assumes "chrono (x # tr' @ [y])" and "w \<in> set (tr' @ [y])"
  shows "unat (millis118 x) \<le> unat (millis116 w) \<and> unat (millis116 w) \<le> unat (millis118 y)"
proof -
  obtain a b where ab: "tr' @ [y] = a @ w # b"
    using assms(2) by (meson split_list)
  have s: "sorted (unat (millis116 x) # unat (millis118 x) #
      concat (map (\<lambda>z. [unat (millis116 z), unat (millis118 z)]) (tr' @ [y])))"
    using assms(1) by (simp add: chrono_def)
  then have 1: "unat (millis118 x) \<le> unat (millis116 w)"
    by (simp add: ab)
  have "sorted (concat (map (\<lambda>z. [unat (millis116 z), unat (millis118 z)]) tr')
      @ [unat (millis116 y), unat (millis118 y)])"
    using s by simp
  then have 2: "\<forall>v\<in>set tr'. unat (millis116 v) \<le> unat (millis118 y)"
      and 3: "unat (millis116 y) \<le> unat (millis118 y)"
    by (auto simp add: sorted_append)
  have "unat (millis116 w) \<le> unat (millis118 y)"
    using assms(2) 2 3 by auto
  with 1 show ?thesis by simp
qed

lemma edges_apart:
  assumes "edge x (run setup_state tr)" and "edge y (run setup_state (tr @ x # tr'))"
      and "chrono (x # tr' @ [y])"
  shows "unat (millis118 x) + unat debounceDelay < unat (millis118 y)"
proof -
  obtain w where w: "w \<in> set (tr' @ [y])" "debounceDelay < millis118 y - millis116 w"
    using edge_restarted [OF assms(1,2)] by blast
  have o: "unat (millis118 x) \<le> unat (millis116 w)" "unat (millis116 w) \<le> unat (millis118 y)"
    using chrono_later [OF assms(3) w(1)] by simp_all
  then have "millis116 w \<le> millis118 y" by (simp add: word_le_nat_alt)
  then have "unat (millis118 y - millis116 w) = unat (millis118 y) - unat (millis116 w)"
    by (rule unat_sub)
  moreover have "unat debounceDelay < unat (millis118 y - millis116 w)"
    using w(2) by (simp add: word_less_nat_alt)
  ultimately show ?thesis using o by linarith
qed


text \<open>
  Claim C5, the debounce law, in three parts.
  \<^item> The debounced state changes in a tick only when the trace ends in a stretch of
    ticks that all read the new level, and the clock read at line 118 of this tick is
    more than \<open>debounceDelay\<close> past the clock read at line 116 of the first tick of the
    stretch (as a 32-bit difference): the raw reading has been stable for that long.
  \<^item> A tick toggles \<open>cycle_run\<close> at line 122 exactly when it has a press edge, and then
    once; without a press edge the button handling leaves \<open>cycle_run\<close> as it is.
  \<^item> Two ticks that each change the debounced state are more than \<open>debounceDelay\<close>
    apart on a clock that does not go back: raw edges closer together than that
    commit at most one change.
\<close>

theorem debounce_law:
  "(edge x (run setup_state tr) \<longrightarrow>
      (\<exists>pre suf. tr @ [x] = pre @ suf \<and> suf \<noteq> [] \<and> (\<forall>y\<in>set suf. reading y = reading x)
         \<and> debounceDelay < millis118 x - millis116 (hd suf)))
   \<and> cycle_run (before_cycle x s) = (if press_edge x s then \<not> cycle_run s else cycle_run s)
   \<and> (edge x (run setup_state tr) \<and> edge y (run setup_state (tr @ x # tr'))
        \<and> chrono (x # tr' @ [y])
      \<longrightarrow> unat (millis118 x) + unat debounceDelay < unat (millis118 y))"
  using edge_after_stable [of x tr] before_cycle_cycle_run [of x s] edges_apart [of x tr y tr']
  by blast

text \<open>
  A press that commits at 300 ms and starts the cycle, and the release that commits at
  500 ms.
\<close>

theorem debounce_law_witness:
  "edge (tick_at 300 LOW 20) (run setup_state [tick_at 0 HIGH 20, tick_at 100 HIGH 20, tick_at 200 LOW 20])
   \<and> press_edge (tick_at 300 LOW 20) (run setup_state [tick_at 0 HIGH 20, tick_at 100 HIGH 20, tick_at 200 LOW 20])
   \<and> edge (tick_at 500 HIGH 20) (run setup_state
        ([tick_at 0 HIGH 20, tick_at 100 HIGH 20, tick_at 200 LOW 20] @ tick_at 300 LOW 20 # [tick_at 400 HIGH 20]))
   \<and> chrono (tick_at 300 LOW 20 # [tick_at 400 HIGH 20] @ [tick_at 500 HIGH 20])
   \<and> (\<exists>pre suf. [tick_at 0 HIGH 20, tick_at 100 HIGH 20, tick_at 200 LOW 20] @ [tick_at 300 LOW 20] = pre @ suf
         \<and> suf \<noteq> [] \<and> (\<forall>y\<in>set suf. reading y = reading (tick_at 300 LOW 20))
         \<and> debounceDelay < millis118 (tick_at 300 LOW 20) - millis116 (hd suf))
   \<and> cycle_run (before_cycle (tick_at 300 LOW 20)
        (run setup_state [tick_at 0 HIGH 20, tick_at 100 HIGH 20, tick_at 200 LOW 20]))
   \<and> unat (millis118 (tick_at 300 LOW 20)) + unat debounceDelay < unat (millis118 (tick_at 500 HIGH 20))"
proof -
  let ?tr = "[tick_at 0 HIGH 20, tick_at 100 HIGH 20, tick_at 200 LOW 20]"
  let ?x = "tick_at 300 LOW 20" and ?y = "tick_at 500 HIGH 20" and ?tr' = "[tick_at 400 HIGH 20]"
  have a: "edge ?x (run setup_state ?tr)"
    by (simp add: edge_def eval_defs)
  have b: "press_edge ?x (run setup_state ?tr)"
    by (simp add: press_edge_def edge_def eval_defs)
  have c: "edge ?y (run setup_state (?tr @ ?x # ?tr'))"
    by (simp add: edge_def eval_defs)
  have d: "chrono (?x # ?tr' @ [?y])"
    by (simp add: chrono_def tick_at_def)
  have e: "\<not> cycle_run (run setup_state ?tr)"
    by (simp add: eval_defs)
  show ?thesis
    using a b c d e debounce_law [of ?x ?tr "run setup_state ?tr" ?y ?tr']
    by simp
qed

subsection \<open>Time stamps\<close>







text \<open>
  The clock wraps around after \<open>2^32\<close> ms, and \<open>loop()\<close> does not account for it
  (its comment calls this a FIXME). A press 100 ms before the clock wraps starts a cycle
  whose \<open>finish_time\<close> wraps to 7199900, below the clock, and the timeout branch ends
  it in the same tick.
\<close>

lemma wrapped_start_ends_at_once:
  "press_edge (tick_at 4294967196 LOW 20)
     (run setup_state [tick_at 4294966896 HIGH 20, tick_at 4294966996 HIGH 20,
        tick_at 4294967096 LOW 20])
   \<and> cycle_run (before_cycle (tick_at 4294967196 LOW 20)
     (run setup_state [tick_at 4294966896 HIGH 20, tick_at 4294966996 HIGH 20,
        tick_at 4294967096 LOW 20]))
   \<and> finish_time (loop (tick_at 4294967196 LOW 20)
     (run setup_state [tick_at 4294966896 HIGH 20, tick_at 4294966996 HIGH 20,
        tick_at 4294967096 LOW 20])) = 7199900
   \<and> \<not> cycle_run (loop (tick_at 4294967196 LOW 20)
     (run setup_state [tick_at 4294966896 HIGH 20, tick_at 4294966996 HIGH 20,
        tick_at 4294967096 LOW 20]))"
  by (simp add: press_edge_def edge_def eval_defs)





section \<open>Properties of the temperature conversion\<close>

subsection \<open>Arithmetic on floats\<close>

lemma f_simps:
  "fadd (Some x) (Some y) = Some (x + y)"
  "fsub (Some x) (Some y) = Some (x - y)"
  "y \<noteq> 0 \<Longrightarrow> fdiv (Some x) (Some y) = Some (x / y)"
  "fdiv (Some x) (Some 0) = None"
  "0 < x \<Longrightarrow> flog (Some x) = Some (ln x)"
  "fadd None b = None" "fsub None b = None" "fdiv None b = None" "fdiv a None = None"
  "flog None = None" "float_to_int None = None"
  by (simp_all add: fadd_def fsub_def fdiv_def flog_def float_to_int_def split: option.splits)

lemma sum_samples:
  "foldl (\<lambda>a v. fadd a (Some (real_of_int v))) (Some a0) xs = Some (a0 + real_of_int (sum_list xs))"
  by (induction xs arbitrary: a0) (simp_all add: f_simps add.assoc)

subsection \<open>Means strictly inside the range\<close>

lemma ln_5114: "ln (5114::real) < 13"
proof -
  have "(2::real) \<le> exp 1" using exp_ge_add_one_self [of "1::real"] by simp
  then have "(2::real) ^ 13 \<le> exp 1 ^ 13" by (rule power_mono) simp
  also have "exp (1::real) ^ 13 = exp 13"
    using exp_of_nat_mult [of 13 "1::real"] by simp
  finally have "(5114::real) < exp 13" by simp
  then have "ln (5114::real) < ln (exp 13)"
    by (subst ln_less_cancel_iff) simp_all
  then show ?thesis by simp
qed

text \<open>
  The formula from the mean on, for a mean \<open>S / 5\<close> of five whole samples with
  \<open>0 < S < 5115\<close>: the divisor of the resistance formula is positive, and the ratio
  \<open>R / R0\<close> is at least \<open>1 / 5114\<close>.
\<close>

lemma ratio_bounds:
  fixes S :: real
  assumes "1 \<le> S" "S \<le> 5114"
  shows "0 < 1023 / (S / 5) - 1" and "1 / 5114 \<le> 100000 / (1023 / (S / 5) - 1) / 100000"
proof -
  have q: "1023 / (S / 5) - 1 = (5115 - S) / S" using assms by (simp add: field_simps)
  show "0 < 1023 / (S / 5) - 1" using assms by (simp add: q)
  have "100000 / ((5115 - S) / S) / 100000 = S / (5115 - S)"
    using assms by (simp add: field_simps)
  then have "100000 / (1023 / (S / 5) - 1) / 100000 = S / (5115 - S)"
    by (simp only: q)
  moreover have "1 / 5114 \<le> S / (5115 - S)"
    using assms by (simp add: field_simps)
  ultimately show "1 / 5114 \<le> 100000 / (1023 / (S / 5) - 1) / 100000" by simp
qed

lemma ratio_lower:
  fixes S :: real
  assumes "1 \<le> S" "S \<le> 5114"
  shows "1 / 5114 \<le> 1023 / (S / 5) - 1"
proof -
  have q: "1023 / (S / 5) - 1 = (5115 - S) / S" using assms by (simp add: field_simps)
  have "1 / 5114 \<le> (5115 - S) / S" using assms by (simp add: field_simps)
  then show ?thesis by (simp only: q)
qed

lemma steinhart_positive:
  fixes \<rho> :: real
  assumes "1 / 5114 \<le> \<rho>"
  shows "1 / 16000 < ln \<rho> / 3950 + 1 / (25 + 273.15)"
proof -
  have "0 < \<rho>" using assms by (rule less_le_trans [rotated]) simp
  have "ln (1 / 5114 :: real) \<le> ln \<rho>"
    using assms \<open>0 < \<rho>\<close> by (subst ln_le_cancel_iff) simp_all
  moreover have "ln (1 / 5114 :: real) = - ln 5114"
    by (simp add: ln_div)
  ultimately have "- 13 < ln \<rho>" using ln_5114 by linarith
  then have "- 13 / 3950 < ln \<rho> / 3950" by (simp add: divide_strict_right_mono)
  then show ?thesis by simp
qed

lemma check_Temperature_value:
  fixes adc :: "int list"
  defines "S \<equiv> real_of_int (sum_list adc)"
  defines "q \<equiv> 1023 / (S / 5) - 1"
  defines "d \<equiv> ln (100000 / q / 100000) / 3950 + 1 / (25 + 273.15)"
  assumes "length adc = NUMSAMPLES" and "0 < sum_list adc" and "sum_list adc < 5115"
  shows "check_Temperature adc = \<lparr>res = Some (100000 / q), steinhart = Some (1 / d - 273.15),
           ret = Some (trunc (1 / d - 273.15))\<rparr>"
    and "0 < q" and "1 / 16000 < d"
proof -
  have S: "1 \<le> S" "S \<le> 5114"
    unfolding S_def using assms(5,6) by linarith+
  define \<rho> where "\<rho> = 100000 / q / 100000"
  show q: "0 < q" using ratio_bounds(1) [OF S] by (simp add: q_def)
  have \<rho>: "1 / 5114 \<le> \<rho>"
    using ratio_bounds(2) [OF S] by (simp add: q_def \<rho>_def)
  have \<rho>0: "0 < \<rho>" using \<rho> by (rule less_le_trans [rotated]) simp
  show d: "1 / 16000 < d" unfolding d_def \<rho>_def [symmetric] using \<rho> by (rule steinhart_positive)
  then have d0: "0 < d" by (rule less_trans [rotated]) simp
  have t: "1 / d < 16000" using d d0 by (simp add: field_simps)
  have t0: "0 < 1 / d" using d0 by simp
  have avg: "fdiv (foldl (\<lambda>a v. fadd a (Some (real_of_int v))) (Some 0) (take NUMSAMPLES adc))
      (Some (real NUMSAMPLES)) = Some (S / 5)"
    using assms(4) by (simp add: sum_samples f_simps S_def NUMSAMPLES_def)
  have r: "fdiv (Some RESISTANCE) (fsub (fdiv (Some 1023) (Some (S / 5))) (Some 1)) = Some (100000 / q)"
    using S q by (simp add: f_simps RESISTANCE_def q_def)
  have l: "flog (fdiv (Some (100000 / q)) (Some THERMISTORNOMINAL)) = Some (ln \<rho>)"
    using \<rho>0 by (simp add: f_simps THERMISTORNOMINAL_def \<rho>_def)
  have s: "fadd (fdiv (Some (ln \<rho>)) (Some BCOEFFICIENT))
      (fdiv (Some 1) (fadd (Some TEMPERATURENOMINAL) (Some 273.15))) = Some d"
    by (simp add: f_simps BCOEFFICIENT_def TEMPERATURENOMINAL_def d_def \<rho>_def)
  have k: "fsub (fdiv (Some 1) (Some d)) (Some 273.15) = Some (1 / d - 273.15)"
    using d0 by (simp add: f_simps)
  have "- 32769 < u - 273.15" "u - 273.15 < 32768" if "0 < u" "u < 16000" for u :: real
    using that by simp_all
  from this [OF t0 t] have "- 32769 < 1 / d - 273.15" "1 / d - 273.15 < 32768" .
  then have i: "float_to_int (Some (1 / d - 273.15)) = Some (trunc (1 / d - 273.15))"
    unfolding float_to_int_def trunc_def by (simp only: option.case simp_thms if_True)
  show "check_Temperature adc = \<lparr>res = Some (100000 / q), steinhart = Some (1 / d - 273.15),
      ret = Some (trunc (1 / d - 273.15))\<rparr>"
    unfolding check_Temperature_def Let_def avg r l s k i ..
qed

text \<open>
  Claim C7. For five samples whose mean lies strictly between 0 and 1023, every step of
  the conversion stays within the finite reals: no divisor is zero (the mean, the
  divisor of the resistance formula, the denominator of the final inversion), the
  argument of the logarithm is positive, and the result fits an \<open>int\<close>. The resistance
  is positive and at most 511400000 ohms, the temperature is above absolute zero and
  below 16000 degrees.
\<close>

theorem conversion_defined:
  assumes "length adc = NUMSAMPLES" and "0 < adc_mean adc" and "adc_mean adc < 1023"
  shows "\<exists>r t n. check_Temperature adc = \<lparr>res = Some r, steinhart = Some t, ret = Some n\<rparr>
           \<and> 0 < r \<and> r \<le> 511400000 \<and> - 273.15 < t \<and> t < 16000"
proof -
  have s: "0 < sum_list adc" "sum_list adc < 5115"
    using assms(2,3) by (simp_all add: adc_mean_def NUMSAMPLES_def)
  then have S: "1 \<le> real_of_int (sum_list adc)" "real_of_int (sum_list adc) \<le> 5114"
    by linarith+
  define q where "q = 1023 / (real_of_int (sum_list adc) / 5) - 1"
  define d where "d = ln (100000 / q / 100000) / 3950 + 1 / (25 + 273.15)"
  note v = check_Temperature_value [OF assms(1) s, folded q_def, folded d_def]
  have d0: "0 < d" using v(3) by (rule less_trans [rotated]) simp
  then have t0: "0 < 1 / d" by simp
  have t1: "1 / d < 16000" using v(3) d0 by (simp add: field_simps)
  have "- 273.15 < u - 273.15" "u - 273.15 < 16000" if "0 < u" "u < 16000" for u :: real
    using that by simp_all
  from this [OF t0 t1] have t: "- 273.15 < 1 / d - 273.15" "1 / d - 273.15 < 16000" .
  have ql: "1 / 5114 \<le> q" unfolding q_def using S by (rule ratio_lower)
  have r0: "0 < 100000 / q" using v(2) by simp
  have "100000 \<le> 511400000 * q" using ql by simp
  then have r1: "100000 / q \<le> 511400000" using v(2) by (simp add: field_simps)
  show ?thesis using v(1) r0 r1 t by blast
qed

text \<open>The smallest mean inside the range, 0.2, from one sample of 1 and four of 0.\<close>

theorem conversion_defined_witness:
  "length [0, 0, 0, 0, 1 :: int] = NUMSAMPLES \<and> 0 < adc_mean [0, 0, 0, 0, 1]
   \<and> adc_mean [0, 0, 0, 0, 1] < 1023
   \<and> (\<exists>r t n. check_Temperature [0, 0, 0, 0, 1] = \<lparr>res = Some r, steinhart = Some t, ret = Some n\<rparr>
           \<and> 0 < r \<and> r \<le> 511400000 \<and> - 273.15 < t \<and> t < 16000)"
proof -
  have a: "length [0, 0, 0, 0, 1 :: int] = NUMSAMPLES" by (simp add: NUMSAMPLES_def)
  have b: "0 < adc_mean [0, 0, 0, 0, 1]" by (simp add: adc_mean_def NUMSAMPLES_def)
  have c: "adc_mean [0, 0, 0, 0, 1] < 1023" by (simp add: adc_mean_def NUMSAMPLES_def)
  show ?thesis using a b c conversion_defined [OF a b c] by simp
qed

subsection \<open>Means at the ends of the range\<close>

text \<open>
  With all samples 0 the mean is zero and \<open>1023 / average\<close> divides by zero; with all
  samples 1023 the divisor \<open>1023 / average - 1\<close> is zero. \<open>check_Temperature\<close> has no
  guard for either, so the first model, which stops at a division by zero, has no
  value there.
\<close>

lemma extreme_means:
  assumes "length adc = NUMSAMPLES" and "sum_list adc = 0 \<or> sum_list adc = 5115"
  shows "check_Temperature adc = \<lparr>res = None, steinhart = None, ret = None\<rparr>"
proof -
  have avg: "fdiv (foldl (\<lambda>a v. fadd a (Some (real_of_int v))) (Some 0) (take NUMSAMPLES adc))
      (Some (real NUMSAMPLES)) = Some (real_of_int (sum_list adc) / 5)"
    using assms(1) by (simp add: sum_samples f_simps NUMSAMPLES_def)
  from assms(2) have
    "fdiv (Some RESISTANCE) (fsub (fdiv (Some 1023) (Some (real_of_int (sum_list adc) / 5))) (Some 1)) = None"
    by (auto simp add: f_simps)
  then show ?thesis
    unfolding check_Temperature_def Let_def avg by (simp add: f_simps)
qed

text \<open>The second model agrees with the first wherever the first has a value.\<close>

lemma agrees_Some: "agrees (Some r) (Fin r)"
  by (simp add: agrees_def)

lemma agrees_fadd: "agrees a x \<Longrightarrow> agrees b y \<Longrightarrow> agrees (fadd a b) (xadd x y)"
  by (auto simp add: agrees_def fadd_def split: option.splits)

lemma agrees_fsub: "agrees a x \<Longrightarrow> agrees b y \<Longrightarrow> agrees (fsub a b) (xsub x y)"
  by (auto simp add: agrees_def fsub_def split: option.splits)

lemma agrees_fdiv: "agrees a x \<Longrightarrow> agrees b y \<Longrightarrow> agrees (fdiv a b) (xdiv x y)"
  by (auto simp add: agrees_def fdiv_def split: option.splits)

lemma agrees_flog: "agrees a x \<Longrightarrow> agrees (flog a) (xlog x)"
  by (auto simp add: agrees_def flog_def split: option.splits)

lemma agrees_float_to_int: "agrees a x \<Longrightarrow> a \<noteq> None \<Longrightarrow> xfloat_to_int x = float_to_int a"
  by (auto simp add: agrees_def float_to_int_def split: option.splits)

lemma agrees_sum:
  "agrees a x \<Longrightarrow>
   agrees (foldl (\<lambda>a v. fadd a (Some (real_of_int v))) a xs)
     (foldl (\<lambda>a v. xadd a (Fin (real_of_int v))) x xs)"
  by (induction xs arbitrary: a x) (simp_all add: agrees_fadd agrees_Some)

lemmas agrees_intros = agrees_Some agrees_fadd agrees_fsub agrees_fdiv agrees_flog agrees_sum

lemma models_agree:
  "agrees (res (check_Temperature adc)) (xres (check_Temperature_ieee adc))"
  "agrees (steinhart (check_Temperature adc)) (xsteinhart (check_Temperature_ieee adc))"
  "steinhart (check_Temperature adc) \<noteq> None \<Longrightarrow>
     xret (check_Temperature_ieee adc) = ret (check_Temperature adc)"
proof -
  show "agrees (res (check_Temperature adc)) (xres (check_Temperature_ieee adc))"
    unfolding check_Temperature_def check_Temperature_ieee_def Let_def
      conversion.select_convs xconversion.select_convs
    by (intro agrees_intros)
  show s: "agrees (steinhart (check_Temperature adc)) (xsteinhart (check_Temperature_ieee adc))"
    unfolding check_Temperature_def check_Temperature_ieee_def Let_def
      conversion.select_convs xconversion.select_convs
    by (intro agrees_intros)
  assume "steinhart (check_Temperature adc) \<noteq> None"
  from agrees_float_to_int [OF s this]
  show "xret (check_Temperature_ieee adc) = ret (check_Temperature adc)"
    unfolding check_Temperature_def check_Temperature_ieee_def Let_def
      conversion.select_convs xconversion.select_convs .
qed

text \<open>The mean in the second model, and the truncation of \<open>-273.15\<close>.\<close>

lemma xsum_samples:
  "foldl (\<lambda>a v. xadd a (Fin (real_of_int v))) (Fin a0) xs = Fin (a0 + real_of_int (sum_list xs))"
  by (induction xs arbitrary: a0) (simp_all add: add.assoc)

lemma xaverage:
  assumes "length adc = NUMSAMPLES"
  shows "xdiv (foldl (\<lambda>a v. xadd a (Fin (real_of_int v))) (Fin 0) (take NUMSAMPLES adc))
      (Fin (real NUMSAMPLES)) = Fin (adc_mean adc)"
  using assms by (simp add: xsum_samples adc_mean_def NUMSAMPLES_def)

lemma trunc_absolute_zero: "trunc (0 - 273.15) = - 273"
proof -
  have "\<lceil>- (27315 / 100) :: real\<rceil> = - 273" by (simp add: ceiling_eq_iff)
  then show ?thesis by (simp add: trunc_def)
qed

text \<open>
  Claim C8. When the mean of the five samples is exactly 0 or exactly 1023, the division
  by zero does not stop the conversion and no NaN or infinity leaves it: the float at
  the \<open>return\<close> is the finite value \<open>-273.15\<close> and the function returns \<open>-273\<close>, the
  same defined extreme at both ends. The code has no clamp of its own; the value
  comes about by float arithmetic. At mean 1023 the resistance is \<open>100000 / 0 = +inf\<close>,
  its logarithm is \<open>+inf\<close>, and the inversion \<open>1 / inf\<close> gives 0. At mean 0 the
  quotient \<open>1023 / 0\<close> is \<open>+inf\<close>, the resistance \<open>100000 / inf\<close> is 0, its logarithm
  is \<open>-inf\<close>, and the inversion gives 0 again. The plate temperature that the
  branches of \<open>loop()\<close> compare with \<open>target_temp\<close> is then the number \<open>-273\<close>.
\<close>

theorem extremes_return_absolute_zero:
  assumes "length adc = NUMSAMPLES" and "adc_mean adc = 0 \<or> adc_mean adc = 1023"
  shows "xsteinhart (check_Temperature_ieee adc) = Fin (- 273.15)
       \<and> xret (check_Temperature_ieee adc) = Some (- 273)
       \<and> xres (check_Temperature_ieee adc) = (if adc_mean adc = 0 then Fin 0 else PInf)
       \<and> (xret (check_Temperature_ieee adc) = Some (plate_reading x) \<longrightarrow>
            plate_temp (before_cycle x s) = - 273 \<and> plate_temp (before_cycle x s) < target_temp)"
proof -
  have v: "xsteinhart (check_Temperature_ieee adc) = Fin (- 273.15)
       \<and> xret (check_Temperature_ieee adc) = Some (- 273)
       \<and> xres (check_Temperature_ieee adc) = (if adc_mean adc = 0 then Fin 0 else PInf)"
    using assms(2)
  proof
    assume m: "adc_mean adc = 0"
    show ?thesis
      unfolding check_Temperature_ieee_def Let_def xaverage [OF assms(1)] m
      by (simp add: RESISTANCE_def THERMISTORNOMINAL_def BCOEFFICIENT_def TEMPERATURENOMINAL_def
          trunc_absolute_zero [simplified])
  next
    assume m: "adc_mean adc = 1023"
    show ?thesis
      unfolding check_Temperature_ieee_def Let_def xaverage [OF assms(1)] m
      by (simp add: RESISTANCE_def THERMISTORNOMINAL_def BCOEFFICIENT_def TEMPERATURENOMINAL_def
          trunc_absolute_zero [simplified])
  qed
  have "plate_temp (before_cycle x s) = - 273 \<and> plate_temp (before_cycle x s) < target_temp"
    if "xret (check_Temperature_ieee adc) = Some (plate_reading x)"
  proof -
    from that v have "plate_reading x = - 273" by simp
    then show ?thesis by (simp add: plate_temp_before_cycle target_temp_def)
  qed
  with v show ?thesis by blast
qed

text \<open>Five samples of 0 and five samples of 1023, and a tick that reads the plate at -273.\<close>

theorem extremes_return_absolute_zero_witness:
  "length [0, 0, 0, 0, 0 :: int] = NUMSAMPLES \<and> adc_mean [0, 0, 0, 0, 0] = 0
   \<and> xsteinhart (check_Temperature_ieee [0, 0, 0, 0, 0]) = Fin (- 273.15)
   \<and> xret (check_Temperature_ieee [0, 0, 0, 0, 0]) = Some (- 273)
   \<and> xres (check_Temperature_ieee [0, 0, 0, 0, 0]) = Fin 0
   \<and> length [1023, 1023, 1023, 1023, 1023 :: int] = NUMSAMPLES
   \<and> adc_mean [1023, 1023, 1023, 1023, 1023] = 1023
   \<and> xsteinhart (check_Temperature_ieee [1023, 1023, 1023, 1023, 1023]) = Fin (- 273.15)
   \<and> xret (check_Temperature_ieee [1023, 1023, 1023, 1023, 1023]) = Some (- 273)
   \<and> xres (check_Temperature_ieee [1023, 1023, 1023, 1023, 1023]) = PInf
   \<and> xret (check_Temperature_ieee [1023, 1023, 1023, 1023, 1023])
       = Some (plate_reading (tick_at 400 LOW (- 273)))
   \<and> plate_temp (before_cycle (tick_at 400 LOW (- 273)) (run setup_state press_trace)) = - 273
   \<and> plate_temp (before_cycle (tick_at 400 LOW (- 273)) (run setup_state press_trace))
       < target_temp"
proof -
  have a: "length [0, 0, 0, 0, 0 :: int] = NUMSAMPLES"
      "length [1023, 1023, 1023, 1023, 1023 :: int] = NUMSAMPLES"
    by (simp_all add: NUMSAMPLES_def)
  have b: "adc_mean [0, 0, 0, 0, 0] = 0" by (simp add: adc_mean_def)
  have c: "adc_mean [1023, 1023, 1023, 1023, 1023] = 1023"
    by (simp add: adc_mean_def NUMSAMPLES_def)
  have d: "plate_reading (tick_at 400 LOW (- 273)) = - 273" by (simp add: tick_at_def)
  show ?thesis
    using a b c d
      extremes_return_absolute_zero [OF a(1) disjI1 [OF b],
        of "tick_at 400 LOW (- 273)" "run setup_state press_trace"]
      extremes_return_absolute_zero [OF a(2) disjI2 [OF c],
        of "tick_at 400 LOW (- 273)" "run setup_state press_trace"]
    by simp
qed

subsection \<open>The reference computation\<close>

lemma ln_512_511: "1 / 512 \<le> ln (512 / 511 :: real)" "ln (512 / 511 :: real) \<le> 1 / 511"
proof -
  have "ln (511 / 512 :: real) \<le> 511 / 512 - 1" by (rule ln_le_minus_one) simp
  moreover have "ln (511 / 512 :: real) = - ln (512 / 511)"
    using ln_inverse [of "512 / 511 :: real"] by simp
  ultimately show "1 / 512 \<le> ln (512 / 511 :: real)" by simp
  have "ln (512 / 511 :: real) \<le> 512 / 511 - 1" by (rule ln_le_minus_one) simp
  then show "ln (512 / 511 :: real) \<le> 1 / 511" by simp
qed

lemma reference_temperature:
  fixes L :: real
  assumes "1 / 512 \<le> L" "L \<le> 1 / 511"
  shows "24.955 < 1 / (L / 3950 + 1 / (25 + 273.15)) - 273.15"
    and "1 / (L / 3950 + 1 / (25 + 273.15)) - 273.15 < 24.957"
proof -
  define d where "d = L / 3950 + 1 / (25 + 273.15)"
  have d0: "0 < d" using assms by (simp add: d_def add_pos_pos)
  have "d * 298.105 < 1" using assms by (simp add: d_def)
  then have "298.105 < 1 / d" using d0 by (simp add: field_simps)
  then show "24.955 < 1 / (L / 3950 + 1 / (25 + 273.15)) - 273.15"
    unfolding d_def by simp
  have "1 < d * 298.107" using assms by (simp add: d_def)
  then have "1 / d < 298.107" using d0 by (simp add: field_simps)
  then show "1 / (L / 3950 + 1 / (25 + 273.15)) - 273.15 < 24.957"
    unfolding d_def by simp
qed

lemma reference_value:
  "check_Temperature [512, 512, 512, 512, 512] =
     \<lparr>res = Some (51200000 / 511),
      steinhart = Some (1 / (ln (512 / 511) / 3950 + 1 / (25 + 273.15)) - 273.15),
      ret = Some (trunc (1 / (ln (512 / 511) / 3950 + 1 / (25 + 273.15)) - 273.15))\<rparr>"
  using check_Temperature_value(1) [of "[512, 512, 512, 512, 512]"]
  by (simp add: NUMSAMPLES_def)

text \<open>
  Claim C9, as the code has it. For five samples of 512 the resistance is
  \<open>100000 / (1023 / 512 - 1) = 51200000 / 511\<close>, within half an ohm of 100196, and
  the Steinhart-Hart equation with \<open>R0 = 100000\<close>, \<open>T0 = 298.15\<close> and \<open>B = 3950\<close>
  gives a temperature between 24.955 and 24.957 degrees Celsius; the function, declared
  \<open>int\<close>, returns 24.
\<close>

theorem reference_conversion:
  "res (check_Temperature [512, 512, 512, 512, 512]) = Some (51200000 / 511)
   \<and> \<bar>51200000 / 511 - 100196\<bar> < (1 / 2 :: real)
   \<and> (\<exists>t. steinhart (check_Temperature [512, 512, 512, 512, 512]) = Some t
         \<and> 24.955 < t \<and> t < 24.957)
   \<and> ret (check_Temperature [512, 512, 512, 512, 512]) = Some 24"
proof -
  let ?t = "1 / (ln (512 / 511) / 3950 + 1 / (25 + 273.15)) - 273.15 :: real"
  have b: "24.955 < ?t" "?t < 24.957"
    using reference_temperature [OF ln_512_511] by simp_all
  then have "\<lfloor>?t\<rfloor> = 24" by (subst floor_eq_iff) simp
  moreover have "0 \<le> ?t" using b(1) by simp
  ultimately have "trunc ?t = 24" by (simp only: trunc_def if_True)
  then show ?thesis using b by (simp add: reference_value)
qed

text \<open>
  The claim C9 as stated gives the temperature as approximately 24.85 degrees. The
  value computed for five samples of 512 is more than a tenth of a degree above that,
  and the value returned is 24.
\<close>

theorem reference_not_24_85:
  "steinhart (check_Temperature [512, 512, 512, 512, 512]) \<noteq> None
   \<and> 0.1 < the (steinhart (check_Temperature [512, 512, 512, 512, 512])) - 24.85
   \<and> ret (check_Temperature [512, 512, 512, 512, 512]) = Some 24"
proof -
  let ?t = "1 / (ln (512 / 511) / 3950 + 1 / (25 + 273.15)) - 273.15 :: real"
  have b: "24.955 < ?t" "?t < 24.957"
    using reference_temperature [OF ln_512_511] by simp_all
  then have "\<lfloor>?t\<rfloor> = 24" by (subst floor_eq_iff) simp
  moreover have "0 \<le> ?t" using b(1) by simp
  ultimately have "trunc ?t = 24" by (simp only: trunc_def if_True)
  then show ?thesis using b by (simp add: reference_value)
qed

subsection \<open>The older variant\<close>

text \<open>
  Claim C10. In src/unnamed/part_000 the value \<open>check_Temperature\<close> returns does not
  depend on the samples: line 215 overwrites \<open>steinhart\<close> with
  \<open>1.0 / TEMPERATURENOMINAL + 273.15 = 273.19\<close>, which discards the term computed from
  the measurement; the inversion and the subtraction of 273.15 then give about
  -273.146, and the function returns -273 for every input.
\<close>

theorem part000_constant:
  "check_Temperature_part000 r adc = check_Temperature_part000 r adc'
   \<and> check_Temperature_part000 r adc = Some (- 273)"
proof -
  have v: "float_to_int (fsub (fdiv (Some 1)
      (fadd (fdiv (Some 1) (Some TEMPERATURENOMINAL)) (Some 273.15))) (Some 273.15)) = Some (- 273)"
  proof -
    have "fsub (fdiv (Some 1) (fadd (fdiv (Some 1) (Some TEMPERATURENOMINAL)) (Some 273.15)))
        (Some 273.15) = Some (100 / 27319 - 27315 / 100)"
      by (simp add: f_simps TEMPERATURENOMINAL_def)
    moreover have "\<lceil>100 / 27319 - 27315 / 100 :: real\<rceil> = - 273"
      by (simp add: ceiling_eq_iff)
    ultimately show ?thesis by (simp add: float_to_int_def trunc_def)
  qed
  have "check_Temperature_part000 q xs = Some (- 273)" for q xs
    unfolding check_Temperature_part000_def Let_def by (rule v)
  then show ?thesis by simp
qed

end
